theory Spec2Isabelle
  imports Complex_Main "HOL-Library.AList" "HOL-Library.Multiset"
begin

section \<open>Python values, errors and string operations\<close>

text \<open>
  Exceptions of the Python source are values: \<open>Inl e\<close> is an exception \<open>e\<close> that
  leaves the function, \<open>Inr v\<close> a normal return of \<open>v\<close>. Python floats are modelled as
  exact reals (rounding is not modelled).
\<close>

datatype py_error =
    IndexError
  | KeyError
  | ValueError
  | NameError
  | AttributeError
  | EOFError
  | FatalError
  | Exception string

datatype py_val = PyNone | PyInt int | PyFloat real | PyStr string

text \<open>\<open>xs[i]\<close> for a non-negative index: out of range raises IndexError.\<close>

definition item :: "'a list \<Rightarrow> nat \<Rightarrow> py_error + 'a" where
  "item xs i = (if i < length xs then Inr (xs ! i) else Inl IndexError)"

text \<open>Sequencing: the first exception ends the computation.\<close>

definition bind_err :: "py_error + 'a \<Rightarrow> ('a \<Rightarrow> py_error + 'b) \<Rightarrow> py_error + 'b" where
  "bind_err m f = (case m of Inl e \<Rightarrow> Inl e | Inr x \<Rightarrow> f x)"

text \<open>\<open>sub in s\<close> on strings: \<open>sub\<close> occurs in \<open>s\<close> as a contiguous piece.\<close>

definition starts_with :: "string \<Rightarrow> string \<Rightarrow> bool" where
  "starts_with p s = (take (length p) s = p)"

fun py_in :: "string \<Rightarrow> string \<Rightarrow> bool" where
  "py_in sub [] = (sub = [])"
| "py_in sub (c # cs) = (starts_with sub (c # cs) \<or> py_in sub cs)"

text \<open>\<open>s.replace(old, new)\<close>: every occurrence, from the left, without overlap.\<close>

function py_replace :: "string \<Rightarrow> string \<Rightarrow> string \<Rightarrow> string" where
  "py_replace old new [] = (if old = [] then new else [])"
| "py_replace old new (c # cs) =
     (if old = [] then new @ c # py_replace old new cs
      else if starts_with old (c # cs) then new @ py_replace old new (drop (length old) (c # cs))
      else c # py_replace old new cs)"
  by pat_completeness auto
termination
  by (relation "measure (\<lambda>(old, new, s). length s)") (auto simp: starts_with_def)

text \<open>\<open>s.split(sep)\<close> for a separator of one character: the result is never empty.\<close>

fun split_chr :: "char \<Rightarrow> string \<Rightarrow> string list" where
  "split_chr sep [] = [[]]"
| "split_chr sep (c # cs) =
     (if c = sep then [] # split_chr sep cs
      else (case split_chr sep cs of
              [] \<Rightarrow> [[c]]
            | r # rs \<Rightarrow> (c # r) # rs))"

text \<open>\<open>[val for val in xs if val != '']\<close>\<close>

definition non_empty :: "string list \<Rightarrow> string list" where
  "non_empty xs = filter (\<lambda>val. val \<noteq> []) xs"

section \<open>Metric function \<open>proportion_habitat\<close>\<close>

text \<open>
  The three messages handed to \<open>grass.error\<close>, which prints and returns
  (it does not raise).
\<close>

definition msg_too_many :: "string \<Rightarrow> string" where
  "msg_too_many input_rast =
     ''There is a problem with the input raster '' @ input_rast @
     ''. Raster values must be either 0, 1, or null.''"

definition msg_third_value :: "string \<Rightarrow> string \<Rightarrow> string" where
  "msg_third_value input_rast null =
     ''There is a problem with the input raster '' @ input_rast @
     ''. The value '' @ null @ '' should not be present in the raster.''"

definition msg_values :: "string \<Rightarrow> string \<Rightarrow> string \<Rightarrow> string" where
  "msg_values input_rast zero one =
     ''There is a problem with the input raster '' @ input_rast @
     ''. It presents the values '' @ zero @ '' and '' @ one @
     '', but should present only 0 and 1.''"

text \<open>
  Lines 39-46 of \<open>proportion_habitat\<close>: the first two rows of the table, each split at
  a blank into value and count. A missing row or a row of one field raises IndexError.
\<close>

definition first_two_rows :: "string list \<Rightarrow> py_error + (string \<times> string \<times> string \<times> string)" where
  "first_two_rows valid_cell_counts =
     bind_err (item valid_cell_counts 0) (\<lambda>row0.
     let zero_count_aux = split_chr CHR '' '' row0 in
     bind_err (item zero_count_aux 0) (\<lambda>zero.
     bind_err (item zero_count_aux 1) (\<lambda>zero_count.
     bind_err (item valid_cell_counts 1) (\<lambda>row1.
     let one_count_aux = split_chr CHR '' '' row1 in
     bind_err (item one_count_aux 0) (\<lambda>one.
     bind_err (item one_count_aux 1) (\<lambda>one_count.
     Inr (zero, zero_count, one, one_count)))))))"

text \<open>
  Lines 49-58: the third row, when there are three. The result is the list of messages
  given to \<open>grass.error\<close> (none, or one when the third value is not \<open>*\<close>).
\<close>

definition third_row :: "string \<Rightarrow> string list \<Rightarrow> py_error + string list" where
  "third_row input_rast valid_cell_counts =
     (if length valid_cell_counts = 3 then
        bind_err (item valid_cell_counts 2) (\<lambda>row2.
        let null_count_aux = split_chr CHR '' '' row2 in
        bind_err (item null_count_aux 0) (\<lambda>null.
        bind_err (item null_count_aux 1) (\<lambda>null_count.
        Inr (if null \<noteq> ''*'' then [msg_third_value input_rast null] else []))))
      else Inr [])"

text \<open>
  Lines 60-78: the two counts as floats. \<open>float\<close> is Python's builtin, taken as the
  parameter \<open>flt\<close> (\<open>None\<close> where it raises ValueError). The one-count is a local
  variable that some paths never assign: \<open>None\<close> stands for the unbound variable.
  The result is \<open>(one_count_float, zero_count_float)\<close>.
\<close>

definition cell_counts ::
  "(string \<Rightarrow> real option) \<Rightarrow> string \<times> string \<times> string \<times> string
     \<Rightarrow> py_error + (real option \<times> real)" where
  "cell_counts flt fields =
     (case fields of (zero, zero_count, one, one_count) \<Rightarrow>
      (case (if zero = ''0'' then
               (case flt zero_count of None \<Rightarrow> Inl ValueError
                | Some z \<Rightarrow> Inr (None, z))
             else if zero = ''1'' then
               (case flt zero_count of None \<Rightarrow> Inl ValueError
                | Some z \<Rightarrow> Inr (Some z, 0))
             else Inl (Exception ''Error in raster cell values n.1.''))
       of Inl e \<Rightarrow> Inl e
        | Inr (one_count_float, zero_count_float) \<Rightarrow>
            if one = ''1'' then
              (case flt one_count of None \<Rightarrow> Inl ValueError
               | Some x \<Rightarrow> Inr (Some x, zero_count_float))
            else if one = ''*'' \<and> zero = ''0'' then Inr (Some 0, zero_count_float)
            else Inr (one_count_float, zero_count_float)))"

text \<open>
  Lines 87-94: the division inside \<open>try\<close>. An unbound one-count (NameError) and a zero
  denominator (ZeroDivisionError) are both caught by the bare \<open>except\<close>, which calls
  \<open>grass.error\<close> and falls off the end of the function: the value is \<open>None\<close>.
\<close>

definition proportion_1 :: "real option \<Rightarrow> real \<Rightarrow> real option" where
  "proportion_1 one_count_float zero_count_float =
     (case one_count_float of
        None \<Rightarrow> None
      | Some x \<Rightarrow> if x + zero_count_float = 0 then None
                  else Some (x / (x + zero_count_float)))"

text \<open>
  The body of \<open>proportion_habitat\<close> after the \<open>r.stats -c\<close> call, on the text
  \<open>out\<close> the command printed. The result is the list of messages passed to
  \<open>grass.error\<close> and the outcome. Lines 80-85 assign a variable nobody reads.
\<close>

definition habitat_of_output ::
  "(string \<Rightarrow> real option) \<Rightarrow> string \<Rightarrow> string \<Rightarrow> string list \<times> (py_error + py_val)" where
  "habitat_of_output flt input_rast out =
     (let cell_counts_raw = split_chr CHR 0x0A out;
          valid_cell_counts = non_empty cell_counts_raw
      in if length valid_cell_counts > 3 then ([msg_too_many input_rast], Inr PyNone)
         else
           (case first_two_rows valid_cell_counts of Inl e \<Rightarrow> ([], Inl e)
            | Inr (zero, zero_count, one, one_count) \<Rightarrow>
              (case third_row input_rast valid_cell_counts of Inl e \<Rightarrow> ([], Inl e)
               | Inr msgs \<Rightarrow>
                 (case cell_counts flt (zero, zero_count, one, one_count) of
                    Inl e \<Rightarrow> (msgs, Inl e)
                  | Inr (one_count_float, zero_count_float) \<Rightarrow>
                      (case proportion_1 one_count_float zero_count_float of
                         None \<Rightarrow> (msgs @ [msg_values input_rast zero one], Inr PyNone)
                       | Some p \<Rightarrow> (msgs, Inr (PyFloat (100 * p))))))))"

section \<open>The GIS session\<close>

text \<open>
  The program drives an external GIS engine through commands. The session below holds
  what those commands change: the raster catalogue, the processing window (region), the
  active mask, the attribute tables, the messages printed by \<open>grass.error\<close> and
  the lines waiting on standard input for \<open>raw_input\<close>.

  What the engine computes from geometry and cell data is not interpreted: a region, a
  raster or a mask is described by the request that produced it. A raster made by an
  expression keeps the catalogue it was evaluated against, a mask the region it was
  made in.
\<close>

datatype region =
    Region_preset string
  | Region_vector string py_val py_val string
  | Region_bounds string string string string string
  | Region_zoom raster_map
and raster_map =
    Raster_data string
  | Raster_feature string string region
  | Raster_expr string region "(string \<times> string \<times> region) option"
      "(string \<times> raster_map) list"

record table =
  columns :: "(string \<times> string) list"
  rows :: "(string \<times> (string \<rightharpoonup> py_val)) list"

record session =
  rasters :: "(string \<times> raster_map) list"
  region :: region
  mask :: "(string \<times> string \<times> region) option"
  tables :: "string \<rightharpoonup> table"
  errors :: "string list"
  stdin :: "string list"

text \<open>
  The engine's answers to read-only queries, as functions of what they may depend on:
  the text printed by \<open>r.stats -c\<close> and by \<open>r.category\<close> for a raster (the
  entry of the catalogue under the name asked for, \<open>None\<close> when there is none)
  seen through a region and a mask, the dictionary of \<open>r.raster_info\<close> for a raster,
  and the text printed by \<open>v.db.select -r\<close> for a vector and a \<open>where\<close> clause.
\<close>

record engine =
  r_stats_c :: "raster_map option \<Rightarrow> region \<Rightarrow> (string \<times> string \<times> region) option \<Rightarrow> string"
  r_category :: "raster_map option \<Rightarrow> region \<Rightarrow> (string \<times> string \<times> region) option \<Rightarrow> string"
  raster_info :: "raster_map option \<Rightarrow> (string \<rightharpoonup> py_val)"
  v_db_select_r :: "string \<Rightarrow> string \<Rightarrow> string"

definition raster_names :: "session \<Rightarrow> string set" where
  "raster_names w = fst ` set (rasters w)"

text \<open>\<open>grass.error(msg)\<close>: prints the message; execution goes on.\<close>

definition grass_error :: "string \<Rightarrow> session \<Rightarrow> session" where
  "grass_error msg w = w\<lparr>errors := errors w @ [msg]\<rparr>"

text \<open>
  The commands that change the session. A command is taken to succeed; one addressed to
  a table, column or raster that is not there changes nothing. What \<open>grass.message\<close>
  and \<open>grass.warning\<close> print is left out.
\<close>

definition g_region :: "region \<Rightarrow> session \<Rightarrow> session" where
  "g_region r w = w\<lparr>region := r\<rparr>"

text \<open>\<open>g.region raster=x zoom=x\<close>\<close>

definition g_region_zoom :: "string \<Rightarrow> session \<Rightarrow> session" where
  "g_region_zoom x w =
     (case map_of (rasters w) x of
        None \<Rightarrow> w
      | Some m \<Rightarrow> w\<lparr>region := Region_zoom m\<rparr>)"

text \<open>\<open>v.to.rast input=v output=out cats=cat use=val overwrite=True\<close>\<close>

definition v_to_rast :: "string \<Rightarrow> string \<Rightarrow> string \<Rightarrow> session \<Rightarrow> session" where
  "v_to_rast v out cat w =
     w\<lparr>rasters := AList.update out (Raster_feature v cat (region w)) (rasters w)\<rparr>"

text \<open>\<open>r.mask vector=v cats=cat overwrite=True\<close> and \<open>r.mask -r\<close>\<close>

definition r_mask :: "string \<Rightarrow> string \<Rightarrow> session \<Rightarrow> session" where
  "r_mask v cat w = w\<lparr>mask := Some (v, cat, region w)\<rparr>"

definition r_mask_remove :: "session \<Rightarrow> session" where
  "r_mask_remove w = w\<lparr>mask := None\<rparr>"

text \<open>\<open>g.remove -f type=raster pattern=x\<close>, for a pattern without wildcards\<close>

definition g_remove :: "string \<Rightarrow> session \<Rightarrow> session" where
  "g_remove x w = w\<lparr>rasters := AList.delete x (rasters w)\<rparr>"

text \<open>
  \<open>grass.mapcalc(out = expression)\<close>. Without \<open>overwrite\<close> the engine refuses to
  replace an existing map and \<open>grass.mapcalc\<close> ends in \<open>grass.fatal\<close>.
\<close>

definition mapcalc :: "string \<Rightarrow> string \<Rightarrow> bool \<Rightarrow> session \<Rightarrow> (py_error + unit) \<times> session" where
  "mapcalc out expression overwrite w =
     (if out \<in> raster_names w \<and> \<not> overwrite then (Inl FatalError, w)
      else (Inr (),
            w\<lparr>rasters :=
                AList.update out (Raster_expr expression (region w) (mask w) (rasters w))
                  (rasters w)\<rparr>))"

text \<open>
  \<open>v.db.update map=v column=col value=str(val) where='cat = ' + cat\<close>: every row
  of the table of \<open>v\<close> whose \<open>cat\<close> is the given one gets the value in column
  \<open>col\<close>. The cell holds the Python value whose \<open>str\<close> is written.
\<close>

definition update_row :: "string \<Rightarrow> py_val \<Rightarrow> string \<Rightarrow> string \<times> (string \<rightharpoonup> py_val) \<Rightarrow> string \<times> (string \<rightharpoonup> py_val)" where
  "update_row col val cat row = (if fst row = cat then (fst row, (snd row)(col \<mapsto> val)) else row)"

definition v_db_update :: "string \<Rightarrow> string \<Rightarrow> py_val \<Rightarrow> string \<Rightarrow> session \<Rightarrow> session" where
  "v_db_update v col val cat w =
     (case tables w v of
        None \<Rightarrow> w
      | Some t \<Rightarrow>
          if col \<in> fst ` set (columns t)
          then w\<lparr>tables := (tables w)(v \<mapsto> t\<lparr>rows := map (update_row col val cat) (rows t)\<rparr>)\<rparr>
          else w)"

text \<open>\<open>db.select sql='SELECT cat FROM t'\<close>: a header line, then one line for each row.\<close>

definition db_select_cat :: "string \<Rightarrow> session \<Rightarrow> string" where
  "db_select_cat t w =
     (case tables w t of
        None \<Rightarrow> []
      | Some tb \<Rightarrow> concat (map (\<lambda>l. l @ [CHR 0x0A]) (''cat'' # map fst (rows tb))))"

text \<open>\<open>v.vector_columns(v, getDict = False)\<close>: the names of the columns.\<close>

definition vector_columns :: "string \<Rightarrow> session \<Rightarrow> string list" where
  "vector_columns v w = (case tables w v of None \<Rightarrow> [] | Some t \<Rightarrow> map fst (columns t))"

text \<open>
  \<open>v.db.addcolumn map=v columns=list_cols\<close>: \<open>list_cols\<close> is a list of
  \<open>name type\<close> items separated by commas. An item is added unless its name is empty
  or already a column.
\<close>

definition column_item :: "string \<Rightarrow> string \<times> string" where
  "column_item s =
     (let t = dropWhile (\<lambda>c. c = CHR '' '') s
      in (takeWhile (\<lambda>c. c \<noteq> CHR '' '') t,
          dropWhile (\<lambda>c. c = CHR '' '') (dropWhile (\<lambda>c. c \<noteq> CHR '' '') t)))"

fun add_columns :: "(string \<times> string) list \<Rightarrow> (string \<times> string) list \<Rightarrow> (string \<times> string) list" where
  "add_columns [] cols = cols"
| "add_columns (c # cs) cols =
     add_columns cs (if fst c = [] \<or> fst c \<in> fst ` set cols then cols else cols @ [c])"

definition v_db_addcolumn :: "string \<Rightarrow> string \<Rightarrow> session \<Rightarrow> session" where
  "v_db_addcolumn v list_cols w =
     (case tables w v of
        None \<Rightarrow> w
      | Some t \<Rightarrow>
          w\<lparr>tables := (tables w)(v \<mapsto>
               t\<lparr>columns := add_columns (map column_item (split_chr CHR '','' list_cols)) (columns t)\<rparr>)\<rparr>)"

text \<open>\<open>raw_input(prompt)\<close>: the next line of standard input, EOFError when there is none.\<close>

definition raw_input :: "session \<Rightarrow> (py_error + string) \<times> session" where
  "raw_input w =
     (case stdin w of
        [] \<Rightarrow> (Inl EOFError, w)
      | l # ls \<Rightarrow> (Inr l, w\<lparr>stdin := ls\<rparr>))"

section \<open>The metric functions on a session\<close>

text \<open>
  A metric function is called with the name of a raster, in a session, and returns a
  value or raises; the extra arguments of \<open>run_zonal_stats\<close> are the same for
  every call and are taken as already given to it.
\<close>

type_synonym metric = "string \<Rightarrow> session \<Rightarrow> (py_error + py_val) \<times> session"

text \<open>
  \<open>proportion_habitat(input_rast)\<close>: the table is what \<open>r.stats -c\<close> prints
  for the raster under the region and mask of the session.
\<close>

definition proportion_habitat :: "engine \<Rightarrow> (string \<Rightarrow> real option) \<Rightarrow> metric" where
  "proportion_habitat E flt input_rast w =
     (case habitat_of_output flt input_rast
             (r_stats_c E (map_of (rasters w) input_rast) (region w) (mask w)) of
        (msgs, res) \<Rightarrow> (res, w\<lparr>errors := errors w @ msgs\<rparr>))"

text \<open>
  \<open>number_patches(input_raster_pid, mask)\<close>: with the mask option a copy
  \<open>pid_mask\<close> of the raster is made first and removed after the categories have been
  counted; the count is the number of lines that \<open>r.category\<close> prints.
\<close>

definition number_patches :: "engine \<Rightarrow> bool \<Rightarrow> metric" where
  "number_patches E msk input_raster_pid w =
     (case (if msk then
              (case mapcalc ''pid_mask'' input_raster_pid False w of
                 (Inl e, w1) \<Rightarrow> (Inl e, w1)
               | (Inr u, w1) \<Rightarrow> (Inr ''pid_mask'', w1))
            else (Inr input_raster_pid, w))
      of (Inl e, w1) \<Rightarrow> (Inl e, w1)
       | (Inr temp_map_name, w1) \<Rightarrow>
           (let maps_vals_aux =
                  split_chr CHR 0x0A
                    (r_category E (map_of (rasters w1) temp_map_name) (region w1) (mask w1));
                map_vals = non_empty maps_vals_aux;
                number_of_patches = length map_vals
            in (Inr (PyInt (int number_of_patches)),
                if msk then g_remove temp_map_name w1 else w1)))"

section \<open>The class \<open>GeneralizedZonalStats\<close>\<close>

text \<open>
  The fields of an object. \<open>column_names\<close> does not exist before the first call of
  \<open>create_new_column\<close>: \<open>None\<close> is the missing attribute.
\<close>

record job =
  load_ok :: bool
  set_cols :: bool
  input_shape :: string
  input_rasters :: "string list"
  column_names :: "string list option"

text \<open>
  The object at the end of \<open>__init__\<close> (lines 137-143 and 212). The imports that
  \<open>__init__\<close> asks of the engine on the way are not part of this development.
\<close>

definition new_job :: "string \<Rightarrow> string list \<Rightarrow> job" where
  "new_job shape rasts =
     \<lparr>load_ok = True, set_cols = False, input_shape = shape, input_rasters = rasts,
      column_names = None\<rparr>"

subsection \<open>\<open>create_new_column\<close>\<close>

definition column_type :: "string \<Rightarrow> string option" where
  "column_type t =
     (if t = ''int'' then Some ''integer''
      else if t = ''float'' then Some ''double precision''
      else if t = ''string'' then Some ''varchar(20)''
      else None)"

definition msg_stopped :: string where
  "msg_stopped = ''Ok. The process was stopped. Please select another column name.'' @ [CHR 0x0A]"

definition msg_invalid_option :: string where
  "msg_invalid_option = ''We did not type a valid option. The process was stopped.'' @ [CHR 0x0A]"

definition msg_lengths :: string where
  "msg_lengths = ''The lists of column names and input rasters must have the same length. Columns were not created.''"

text \<open>
  The loop of lines 245-283 over the indices \<open>is\<close>, building \<open>list_cols\<close>. For
  an unknown type the source calls \<open>g.error\<close>, and no \<open>g\<close> is defined in the
  module: NameError.
\<close>

fun stage_columns ::
  "string list \<Rightarrow> string list \<Rightarrow> string list \<Rightarrow> nat list \<Rightarrow> string \<Rightarrow> session
     \<Rightarrow> (py_error + string) \<times> session" where
  "stage_columns names type_col existing_cols [] list_cols w = (Inr list_cols, w)"
| "stage_columns names type_col existing_cols (i # is) list_cols w =
     (case item names i of
        Inl e \<Rightarrow> (Inl e, w)
      | Inr name \<Rightarrow>
          if name \<in> set existing_cols then
            (case raw_input w of
               (Inl e, w1) \<Rightarrow> (Inl e, w1)
             | (Inr overwrite, w1) \<Rightarrow>
                 if overwrite = ''Y'' \<or> overwrite = ''y''
                 then stage_columns names type_col existing_cols is list_cols w1
                 else if overwrite = ''N'' \<or> overwrite = ''n''
                 then (Inl (Exception []), grass_error msg_stopped w1)
                 else (Inl (Exception []), grass_error msg_invalid_option w1))
          else
            (case item type_col i of
               Inl e \<Rightarrow> (Inl e, w)
             | Inr t \<Rightarrow>
                 (case column_type t of
                    None \<Rightarrow> (Inl NameError, w)
                  | Some type_col_str \<Rightarrow>
                      stage_columns names type_col existing_cols is
                        (list_cols @ name @ '' '' @ type_col_str @
                           (if i < length names - 1 then '', '' else []))
                        w)))"

text \<open>
  \<open>create_new_column(self, column_names, type_col)\<close>: the outcome, the object and the
  session afterwards.
\<close>

definition create_new_column ::
  "job \<Rightarrow> string list \<Rightarrow> string list \<Rightarrow> session \<Rightarrow> (py_error + unit) \<times> job \<times> session" where
  "create_new_column self names type_col w =
     (let self1 = self\<lparr>column_names := Some names\<rparr> in
      if list_ex (\<lambda>i. length i > 10) names then (Inl ValueError, self1, w)
      else if length names = length (input_rasters self1)
              \<and> length type_col = length (input_rasters self1) then
        (case stage_columns names type_col (vector_columns (input_shape self1) w)
                [0..<length names] [] w of
           (Inl e, w1) \<Rightarrow> (Inl e, self1, w1)
         | (Inr list_cols, w1) \<Rightarrow>
             (Inr (), self1\<lparr>set_cols := True\<rparr>,
              if list_cols \<noteq> [] then v_db_addcolumn (input_shape self1) list_cols w1 else w1))
      else (Inr (), self1, grass_error msg_lengths w))"

subsection \<open>\<open>run_zonal_stats\<close>\<close>

fun for_each ::
  "('a \<Rightarrow> session \<Rightarrow> (py_error + unit) \<times> session) \<Rightarrow> 'a list \<Rightarrow> session
     \<Rightarrow> (py_error + unit) \<times> session" where
  "for_each body [] w = (Inr (), w)"
| "for_each body (x # xs) w =
     (case body x w of
        (Inl e, w1) \<Rightarrow> (Inl e, w1)
      | (Inr u, w1) \<Rightarrow> for_each body xs w1)"

text \<open>\<open>self.column_names[i]\<close>\<close>

definition column_at :: "job \<Rightarrow> nat \<Rightarrow> py_error + string" where
  "column_at self i =
     (case column_names self of None \<Rightarrow> Inl AttributeError | Some cs \<Rightarrow> item cs i)"

text \<open>
  One round of the loop over the rasters with the global mask (lines 336-346): the
  column, the raster, the metric, the update of the feature's row.
\<close>

definition raster_step :: "metric \<Rightarrow> job \<Rightarrow> string \<Rightarrow> nat \<Rightarrow> session \<Rightarrow> (py_error + unit) \<times> session" where
  "raster_step function self cat i w =
     (case column_at self i of
        Inl e \<Rightarrow> (Inl e, w)
      | Inr col \<Rightarrow>
          (case item (input_rasters self) i of
             Inl e \<Rightarrow> (Inl e, w)
           | Inr rast \<Rightarrow>
               (case function rast w of
                  (Inl e, w1) \<Rightarrow> (Inl e, w1)
                | (Inr val, w1) \<Rightarrow> (Inr (), v_db_update (input_shape self) col val cat w1))))"

text \<open>
  The rest of a feature's round once region and raster of the feature are set: mask,
  the rasters, then the mask and the temporary raster are removed (lines 332-352).
  Nothing is removed when a round of the inner loop raises.
\<close>

definition masked_rounds :: "metric \<Rightarrow> job \<Rightarrow> string \<Rightarrow> session \<Rightarrow> (py_error + unit) \<times> session" where
  "masked_rounds function self cat w =
     (case for_each (raster_step function self cat) [0..<length (input_rasters self)]
             (r_mask (input_shape self) cat w) of
        (Inl e, w1) \<Rightarrow> (Inl e, w1)
      | (Inr u, w1) \<Rightarrow> (Inr (), g_remove ''temp_rast'' (r_mask_remove w1)))"

text \<open>
  Lines 320-330 of \<open>GeneralizedZonalStats.py\<close>: resolution of the first raster,
  region to the vector at that resolution, the feature's raster, region zoomed to it.
\<close>

definition feature_window_main :: "engine \<Rightarrow> job \<Rightarrow> string \<Rightarrow> session \<Rightarrow> (py_error + unit) \<times> session" where
  "feature_window_main E self cat w =
     (case item (input_rasters self) 0 of
        Inl e \<Rightarrow> (Inl e, w)
      | Inr rast0 \<Rightarrow>
          (let rast_info = raster_info E (map_of (rasters w) rast0) in
           case rast_info ''ewres'' of
             None \<Rightarrow> (Inl KeyError, w)
           | Some ewres \<Rightarrow>
               (case rast_info ''nsres'' of
                  None \<Rightarrow> (Inl KeyError, w)
                | Some nsres \<Rightarrow>
                    (Inr (),
                     g_region_zoom ''temp_rast''
                       (v_to_rast (input_shape self) ''temp_rast'' cat
                         (g_region (Region_vector (input_shape self) ewres nsres rast0) w))))))"

text \<open>The round of one feature in \<open>GeneralizedZonalStats.py\<close> (lines 320-355).\<close>

definition feature_round :: "engine \<Rightarrow> metric \<Rightarrow> job \<Rightarrow> string \<Rightarrow> session \<Rightarrow> (py_error + unit) \<times> session" where
  "feature_round E function self cat w =
     (case feature_window_main E self cat w of
        (Inl e, w1) \<Rightarrow> (Inl e, w1)
      | (Inr u, w1) \<Rightarrow> masked_rounds function self cat w1)"

text \<open>Lines 311-313: the identifiers, from the table named in the query.\<close>

definition table_cats :: "string \<Rightarrow> session \<Rightarrow> string list" where
  "table_cats t w =
     filter (\<lambda>val. val \<noteq> [] \<and> val \<noteq> ''cat'') (split_chr CHR 0x0A (db_select_cat t w))"

definition not_ready :: "string \<Rightarrow> job \<Rightarrow> session \<Rightarrow> (py_error + unit) \<times> session" where
  "not_ready please self w =
     (if \<not> load_ok self
      then (Inl (Exception (''Maps were not loaded successfully. '' @ please)), w)
      else if \<not> set_cols self
      then (Inl (Exception (''Columns were not set successfully. '' @ please)), w)
      else (Inr (), w))"

text \<open>\<open>run_zonal_stats\<close> of \<open>GeneralizedZonalStats.py\<close>.\<close>

definition run_zonal_stats :: "engine \<Rightarrow> job \<Rightarrow> metric \<Rightarrow> session \<Rightarrow> (py_error + unit) \<times> session" where
  "run_zonal_stats E self function w =
     (if set_cols self \<and> load_ok self
      then for_each (feature_round E function self) (table_cats ''mun_teste_wgs84'' w) w
      else not_ready ''Retry.'' self w)"

subsection \<open>\<open>run_zonal_stats\<close> and \<open>run_zonal_stats_v2\<close> of \<open>scripts/GeneralizedZonalStats_v001.py\<close>\<close>

text \<open>
  The argument \<open>select_cats\<close> is the string \<open>'all'\<close> by default and a list of
  identifiers otherwise; Python applies \<open>!=\<close>, \<open>len\<close> and \<open>in\<close> to either.
\<close>

datatype select_arg = Sel_str string | Sel_list "string list"

definition sel_len :: "select_arg \<Rightarrow> nat" where
  "sel_len a = (case a of Sel_str s \<Rightarrow> length s | Sel_list l \<Rightarrow> length l)"

definition sel_in :: "string \<Rightarrow> select_arg \<Rightarrow> bool" where
  "sel_in val a = (case a of Sel_str s \<Rightarrow> py_in val s | Sel_list l \<Rightarrow> val \<in> set l)"

text \<open>Lines 376-382: the identifiers of the table of the input vector, then the selection.\<close>

definition selected_cats :: "job \<Rightarrow> select_arg \<Rightarrow> session \<Rightarrow> string list" where
  "selected_cats self select_cats w =
     (let cats = table_cats (input_shape self) w
      in if select_cats \<noteq> Sel_str ''all'' \<and> sel_len select_cats \<le> length cats
         then filter (\<lambda>val. sel_in val select_cats) cats
         else cats)"

text \<open>
  Lines 394-399: one bound of the feature's extent, from the lines printed by
  \<open>v.db.select -r\<close>: the first line that contains the key, with the key removed.
\<close>

definition extent_bound :: "string \<Rightarrow> string list \<Rightarrow> py_error + string" where
  "extent_bound key ext_polygon_list =
     bind_err (item (filter (\<lambda>i. py_in key i) ext_polygon_list) 0) (\<lambda>l.
     Inr (py_replace key [] l))"

definition feature_extent :: "engine \<Rightarrow> job \<Rightarrow> string \<Rightarrow> py_error + (string \<times> string \<times> string \<times> string)" where
  "feature_extent E self cat =
     (let ext_polygon = v_db_select_r E (input_shape self) (''cat = '' @ cat);
          ext_polygon_list = split_chr CHR 0x0A ext_polygon
      in bind_err (extent_bound ''n='' ext_polygon_list) (\<lambda>n.
         bind_err (extent_bound ''s='' ext_polygon_list) (\<lambda>s.
         bind_err (extent_bound ''e='' ext_polygon_list) (\<lambda>e.
         bind_err (extent_bound ''w='' ext_polygon_list) (\<lambda>west.
         Inr (n, s, e, west))))))"

text \<open>
  Lines 394-407: region to the feature's extent aligned to the first raster, the
  feature's raster, region zoomed to it.
\<close>

definition feature_window :: "engine \<Rightarrow> job \<Rightarrow> string \<Rightarrow> session \<Rightarrow> (py_error + unit) \<times> session" where
  "feature_window E self cat w =
     (case feature_extent E self cat of
        Inl e \<Rightarrow> (Inl e, w)
      | Inr (n, s, e, west) \<Rightarrow>
          (case item (input_rasters self) 0 of
             Inl e \<Rightarrow> (Inl e, w)
           | Inr rast0 \<Rightarrow>
               (Inr (),
                g_region_zoom ''temp_rast''
                  (v_to_rast (input_shape self) ''temp_rast'' cat
                    (g_region (Region_bounds n s e west rast0) w)))))"

text \<open>The round of one feature in \<open>run_zonal_stats\<close> (lines 389-432).\<close>

definition feature_round_v001 :: "engine \<Rightarrow> metric \<Rightarrow> job \<Rightarrow> string \<Rightarrow> session \<Rightarrow> (py_error + unit) \<times> session" where
  "feature_round_v001 E function self cat w =
     (case feature_window E self cat w of
        (Inl e, w1) \<Rightarrow> (Inl e, w1)
      | (Inr u, w1) \<Rightarrow> masked_rounds function self cat w1)"





text \<open>
  A metric function adds no raster when, on return, every raster of the catalogue was
  there before the call.
\<close>

definition adds_no_raster :: "metric \<Rightarrow> bool" where
  "adds_no_raster f \<longleftrightarrow> (\<forall>r x v x'. f r x = (Inr v, x') \<longrightarrow> raster_names x' \<subseteq> raster_names x)"

text \<open>
  A metric function keeps the tables when no call of it changes an attribute table.
  Rows are kept outside a set of identifiers when the table has the same rows in the
  same order and every row whose identifier is not in the set is unchanged.
\<close>

definition keeps_tables :: "metric \<Rightarrow> bool" where
  "keeps_tables f \<longleftrightarrow> (\<forall>r x. tables (snd (f r x)) = tables x)"

definition rows_kept ::
  "string set \<Rightarrow> (string \<times> (string \<rightharpoonup> py_val)) list \<Rightarrow> (string \<times> (string \<rightharpoonup> py_val)) list \<Rightarrow> bool" where
  "rows_kept S rs rs' \<longleftrightarrow>
     list_all2 (\<lambda>row row'. fst row' = fst row \<and> (fst row \<notin> S \<longrightarrow> row' = row)) rs rs'"

definition tables_kept :: "string set \<Rightarrow> (string \<rightharpoonup> table) \<Rightarrow> (string \<rightharpoonup> table) \<Rightarrow> bool" where
  "tables_kept S T T' \<longleftrightarrow>
     (\<forall>v. case T v of
            None \<Rightarrow> T' v = None
          | Some t \<Rightarrow> (\<exists>t'. T' v = Some t' \<and> columns t' = columns t
                          \<and> rows_kept S (rows t) (rows t')))"


definition run_zonal_stats_v001 ::
  "engine \<Rightarrow> job \<Rightarrow> metric \<Rightarrow> select_arg \<Rightarrow> session \<Rightarrow> (py_error + unit) \<times> session" where
  "run_zonal_stats_v001 E self function select_cats w =
     (if set_cols self \<and> load_ok self
      then for_each (feature_round_v001 E function self) (selected_cats self select_cats w) w
      else not_ready ''Please retry.'' self w)"

text \<open>
  One round of the loop over the rasters in \<open>run_zonal_stats_v2\<close> (lines 500-518):
  a cut of the raster to the feature replaces the global mask.
\<close>

definition raster_step_v2 :: "metric \<Rightarrow> job \<Rightarrow> string \<Rightarrow> nat \<Rightarrow> session \<Rightarrow> (py_error + unit) \<times> session" where
  "raster_step_v2 function self cat i w =
     (case column_at self i of
        Inl e \<Rightarrow> (Inl e, w)
      | Inr col \<Rightarrow>
          (case item (input_rasters self) i of
             Inl e \<Rightarrow> (Inl e, w)
           | Inr rast \<Rightarrow>
               (case mapcalc ''temp_rast_input''
                       (''if(temp_rast == 1, '' @ rast @ '', null())'') True w of
                  (Inl e, w1) \<Rightarrow> (Inl e, w1)
                | (Inr u, w1) \<Rightarrow>
                    (case function ''temp_rast_input'' w1 of
                       (Inl e, w2) \<Rightarrow> (Inl e, w2)
                     | (Inr val, w2) \<Rightarrow>
                         (Inr (),
                          g_remove ''temp_rast_input''
                            (v_db_update (input_shape self) col val cat w2))))))"

definition feature_round_v2 :: "engine \<Rightarrow> metric \<Rightarrow> job \<Rightarrow> string \<Rightarrow> session \<Rightarrow> (py_error + unit) \<times> session" where
  "feature_round_v2 E function self cat w =
     (case feature_window E self cat w of
        (Inl e, w1) \<Rightarrow> (Inl e, w1)
      | (Inr u, w1) \<Rightarrow>
          (case for_each (raster_step_v2 function self cat) [0..<length (input_rasters self)] w1 of
             (Inl e, w2) \<Rightarrow> (Inl e, w2)
           | (Inr u, w2) \<Rightarrow> (Inr (), g_remove ''temp_rast'' w2)))"

definition run_zonal_stats_v2 ::
  "engine \<Rightarrow> job \<Rightarrow> metric \<Rightarrow> select_arg \<Rightarrow> session \<Rightarrow> (py_error + unit) \<times> session" where
  "run_zonal_stats_v2 E self function select_cats w =
     (if set_cols self \<and> load_ok self
      then for_each (feature_round_v2 E function self) (selected_cats self select_cats w) w
      else not_ready ''Please retry.'' self w)"

section \<open>Example data\<close>

text \<open>
  A reading of \<open>float\<close> on unsigned decimal numerals, the form in which
  \<open>r.stats -c\<close> prints its counts.
\<close>

definition is_digit :: "char \<Rightarrow> bool" where
  "is_digit c = (c \<in> set ''0123456789'')"

definition decimal_float :: "string \<Rightarrow> real option" where
  "decimal_float s =
     (if s \<noteq> [] \<and> list_all is_digit s
      then Some (real (foldl (\<lambda>a c. 10 * a + (of_char c - 48)) 0 s))
      else None)"

definition text_lines :: "string list \<Rightarrow> string" where
  "text_lines ls = concat (map (\<lambda>l. l @ [CHR 0x0A]) ls)"

text \<open>
  A row of the frequency table as \<open>r.stats -c\<close> prints it, value and count with a
  blank between; a plain field is not empty and has neither blank nor line end.
\<close>

definition stats_row :: "string \<Rightarrow> string \<Rightarrow> string" where
  "stats_row v n = v @ '' '' @ n"

definition plain :: "string \<Rightarrow> bool" where
  "plain s \<longleftrightarrow> s \<noteq> [] \<and> CHR '' '' \<notin> set s \<and> CHR 0x0A \<notin> set s"

text \<open>
  An engine whose frequency table depends on the feature under the mask: feature 1 has
  30 zero cells, 10 one cells and 8 null cells; feature 2 has 12 one cells and 4 null
  cells; feature 3 has 5 zero cells and 2 null cells; any other feature is all null.
  Without a mask the raster shows 30 zero cells and 10 one cells.
\<close>

definition example_engine :: engine where
  "example_engine =
     \<lparr>r_stats_c = (\<lambda>rast reg m.
        case m of
          None \<Rightarrow> text_lines [''0 30'', ''1 10'']
        | Some (v, c, r) \<Rightarrow>
            if c = ''1'' then text_lines [''0 30'', ''1 10'', ''* 8'']
            else if c = ''2'' then text_lines [''1 12'', ''* 4'']
            else if c = ''3'' then text_lines [''0 5'', ''* 2'']
            else text_lines [''* 25'']),
      r_category = (\<lambda>rast reg m. text_lines [''3'', ''8'']),
      raster_info = (\<lambda>rast. [''ewres'' \<mapsto> PyFloat 30, ''nsres'' \<mapsto> PyFloat 30]),
      v_db_select_r = (\<lambda>v wh. text_lines [''n=40'', ''s=10'', ''w=5'', ''e=35''])\<rparr>"

definition example_table :: "string list \<Rightarrow> table" where
  "example_table cats =
     \<lparr>columns = [(''cat'', ''integer'')], rows = map (\<lambda>c. (c, Map.empty)) cats\<rparr>"

text \<open>
  A session with two rasters and two vector layers: \<open>mun_teste_wgs84\<close> with the
  features 1, 2 and 3, and \<open>parcels\<close> with the feature 7.
\<close>

definition example_session :: session where
  "example_session =
     \<lparr>rasters = [(''cover'', Raster_data ''cover''), (''patches'', Raster_data ''patches'')],
      region = Region_preset ''default'',
      mask = None,
      tables = [''mun_teste_wgs84'' \<mapsto> example_table [''1'', ''2'', ''3''],
                ''parcels'' \<mapsto> example_table [''7'']],
      errors = [],
      stdin = []\<rparr>"

text \<open>
  The object and the session after \<open>create_new_column(['p_hab'], ['float'])\<close> on a
  new object for the vector \<open>mun_teste_wgs84\<close> and the raster \<open>cover\<close>, with
  the rows of the table in a given order.
\<close>

definition habitat_job :: job where
  "habitat_job =
     (new_job ''mun_teste_wgs84'' [''cover''])\<lparr>column_names := Some [''p_hab''], set_cols := True\<rparr>"

definition habitat_table :: "string list \<Rightarrow> table" where
  "habitat_table cats =
     \<lparr>columns = [(''cat'', ''integer''), (''p_hab'', ''double precision'')],
      rows = map (\<lambda>c. (c, Map.empty)) cats\<rparr>"

definition habitat_session :: "string list \<Rightarrow> session" where
  "habitat_session cats =
     example_session\<lparr>tables := (tables example_session)(''mun_teste_wgs84'' \<mapsto> habitat_table cats)\<rparr>"

section \<open>Unfolding rules for evaluation\<close>

lemmas habitat_defs = habitat_of_output_def non_empty_def first_two_rows_def third_row_def
  cell_counts_def proportion_1_def item_def bind_err_def text_lines_def

lemmas engine_defs = g_region_def g_region_zoom_def v_to_rast_def r_mask_def r_mask_remove_def
  g_remove_def mapcalc_def v_db_update_def update_row_def db_select_cat_def vector_columns_def
  v_db_addcolumn_def column_item_def raw_input_def grass_error_def raster_names_def

lemmas column_defs = create_new_column_def new_job_def column_type_def item_def

lemmas driver_defs = run_zonal_stats_def run_zonal_stats_v001_def run_zonal_stats_v2_def
  feature_round_def feature_window_main_def feature_round_v001_def feature_round_v2_def
  masked_rounds_def
  raster_step_def raster_step_v2_def column_at_def table_cats_def selected_cats_def
  feature_window_def feature_extent_def extent_bound_def not_ready_def sel_len_def sel_in_def
  starts_with_def bind_err_def

lemmas example_defs = example_engine_def example_session_def example_table_def text_lines_def

section \<open>Lines and fields of a text\<close>

lemma split_chr_not_Nil: "split_chr sep s \<noteq> []"
  by (induction s) (auto split: list.splits)

lemma split_chr_line:
  "sep \<notin> set l \<Longrightarrow> split_chr sep (l @ sep # rest) = l # split_chr sep rest"
  by (induction l) (auto split: list.splits simp: split_chr_not_Nil)

lemma split_chr_text_lines:
  "\<forall>l \<in> set ls. CHR 0x0A \<notin> set l \<Longrightarrow> split_chr CHR 0x0A (text_lines ls) = ls @ [[]]"
  by (induction ls) (auto simp: text_lines_def split_chr_line)

lemma split_chr_plain: "sep \<notin> set s \<Longrightarrow> split_chr sep s = [s]"
  by (induction s) auto

lemma split_stats_row:
  "plain v \<Longrightarrow> plain n \<Longrightarrow> split_chr CHR '' '' (stats_row v n) = [v, n]"
  by (simp add: stats_row_def plain_def split_chr_line split_chr_plain)

lemma stats_row_line:
  "plain v \<Longrightarrow> plain n \<Longrightarrow> CHR 0x0A \<notin> set (stats_row v n) \<and> stats_row v n \<noteq> []"
  by (simp add: stats_row_def plain_def)

section \<open>\<open>proportion_habitat\<close> and the shape of the table\<close>

text \<open>
  On a table of two rows, or of three rows with the null row last, the function goes from
  the fields to the counts and to the guarded division. With the rows of 0 and 1, or with
  one of them and the null row, the result is the percentage of one cells; with both
  counts 0 the division is caught, a message is printed and \<open>None\<close> is returned. A
  table of fewer than two rows is not handled: the read of a missing row raises.
\<close>

lemma habitat_two_rows:
  assumes "plain a" "plain an" "plain b" "plain bn"
  shows "habitat_of_output flt r (text_lines [stats_row a an, stats_row b bn]) =
     (case cell_counts flt (a, an, b, bn) of
        Inl e \<Rightarrow> ([], Inl e)
      | Inr (one_count_float, zero_count_float) \<Rightarrow>
          (case proportion_1 one_count_float zero_count_float of
             None \<Rightarrow> ([msg_values r a b], Inr PyNone)
           | Some p \<Rightarrow> ([], Inr (PyFloat (100 * p)))))"
proof -
  have "split_chr CHR 0x0A (text_lines [stats_row a an, stats_row b bn])
      = [stats_row a an, stats_row b bn] @ [[]]"
    by (rule split_chr_text_lines) (use assms stats_row_line in auto)
  then have v: "non_empty (split_chr CHR 0x0A (text_lines [stats_row a an, stats_row b bn]))
      = [stats_row a an, stats_row b bn]"
    using assms stats_row_line by (simp add: non_empty_def)
  show ?thesis
    unfolding habitat_of_output_def v Let_def
    by (simp add: first_two_rows_def third_row_def item_def bind_err_def split_stats_row assms
          split: sum.splits prod.splits option.splits)
qed

lemma habitat_three_rows:
  assumes "plain a" "plain an" "plain b" "plain bn" "plain cn"
  shows "habitat_of_output flt r (text_lines [stats_row a an, stats_row b bn, stats_row ''*'' cn]) =
     (case cell_counts flt (a, an, b, bn) of
        Inl e \<Rightarrow> ([], Inl e)
      | Inr (one_count_float, zero_count_float) \<Rightarrow>
          (case proportion_1 one_count_float zero_count_float of
             None \<Rightarrow> ([msg_values r a b], Inr PyNone)
           | Some p \<Rightarrow> ([], Inr (PyFloat (100 * p)))))"
proof -
  have star: "plain ''*''" by (simp add: plain_def)
  have "split_chr CHR 0x0A (text_lines [stats_row a an, stats_row b bn, stats_row ''*'' cn])
      = [stats_row a an, stats_row b bn, stats_row ''*'' cn] @ [[]]"
    by (rule split_chr_text_lines) (use assms star stats_row_line in auto)
  then have v: "non_empty (split_chr CHR 0x0A
        (text_lines [stats_row a an, stats_row b bn, stats_row ''*'' cn]))
      = [stats_row a an, stats_row b bn, stats_row ''*'' cn]"
    using assms star stats_row_line by (simp add: non_empty_def)
  show ?thesis
    unfolding habitat_of_output_def v Let_def
    by (simp add: first_two_rows_def third_row_def item_def bind_err_def split_stats_row assms star
          split: sum.splits prod.splits option.splits)
qed

lemma habitat_handled_tables:
  assumes "plain zc" "plain oc" "plain nc" "flt zc = Some k0" "flt oc = Some k1"
  shows "k1 + k0 \<noteq> 0 \<Longrightarrow>
           habitat_of_output flt r (text_lines [stats_row ''0'' zc, stats_row ''1'' oc])
             = ([], Inr (PyFloat (100 * (k1 / (k1 + k0)))))"
    and "k1 + k0 \<noteq> 0 \<Longrightarrow>
           habitat_of_output flt r
             (text_lines [stats_row ''0'' zc, stats_row ''1'' oc, stats_row ''*'' nc])
             = ([], Inr (PyFloat (100 * (k1 / (k1 + k0)))))"
    and "k0 \<noteq> 0 \<Longrightarrow>
           habitat_of_output flt r (text_lines [stats_row ''0'' zc, stats_row ''*'' nc])
             = ([], Inr (PyFloat 0))"
    and "k1 \<noteq> 0 \<Longrightarrow>
           habitat_of_output flt r (text_lines [stats_row ''1'' oc, stats_row ''*'' nc])
             = ([], Inr (PyFloat 100))"
proof -
  have p: "plain ''0''" "plain ''1''" "plain ''*''" by (simp_all add: plain_def)
  show "k1 + k0 \<noteq> 0 \<Longrightarrow>
           habitat_of_output flt r (text_lines [stats_row ''0'' zc, stats_row ''1'' oc])
             = ([], Inr (PyFloat (100 * (k1 / (k1 + k0)))))"
    by (simp add: habitat_two_rows p assms cell_counts_def proportion_1_def)
  show "k1 + k0 \<noteq> 0 \<Longrightarrow>
           habitat_of_output flt r
             (text_lines [stats_row ''0'' zc, stats_row ''1'' oc, stats_row ''*'' nc])
             = ([], Inr (PyFloat (100 * (k1 / (k1 + k0)))))"
    by (simp add: habitat_three_rows p assms cell_counts_def proportion_1_def)
  show "k0 \<noteq> 0 \<Longrightarrow>
           habitat_of_output flt r (text_lines [stats_row ''0'' zc, stats_row ''*'' nc])
             = ([], Inr (PyFloat 0))"
    by (simp add: habitat_two_rows p assms cell_counts_def proportion_1_def)
  show "k1 \<noteq> 0 \<Longrightarrow>
           habitat_of_output flt r (text_lines [stats_row ''1'' oc, stats_row ''*'' nc])
             = ([], Inr (PyFloat 100))"
    by (simp add: habitat_two_rows p assms cell_counts_def proportion_1_def)
qed

lemma habitat_guarded_division:
  assumes "plain zc" "plain oc" "flt zc = Some 0" "flt oc = Some 0"
  shows "habitat_of_output flt r (text_lines [stats_row ''0'' zc, stats_row ''1'' oc])
           = ([msg_values r ''0'' ''1''], Inr PyNone)"
proof -
  have p: "plain ''0''" "plain ''1''" by (simp_all add: plain_def)
  show ?thesis
    by (simp add: habitat_two_rows p assms cell_counts_def proportion_1_def)
qed

lemma habitat_short_tables:
  assumes "plain v" "plain n"
  shows "habitat_of_output flt r [] = ([], Inl IndexError)"
    and "habitat_of_output flt r (text_lines [stats_row v n]) = ([], Inl IndexError)"
proof -
  show "habitat_of_output flt r [] = ([], Inl IndexError)"
    by (simp add: habitat_defs)
  have "split_chr CHR 0x0A (text_lines [stats_row v n]) = [stats_row v n] @ [[]]"
    by (rule split_chr_text_lines) (use assms stats_row_line in auto)
  then have v: "non_empty (split_chr CHR 0x0A (text_lines [stats_row v n])) = [stats_row v n]"
    using assms stats_row_line by (simp add: non_empty_def)
  show "habitat_of_output flt r (text_lines [stats_row v n]) = ([], Inl IndexError)"
    unfolding habitat_of_output_def v Let_def
    by (simp add: first_two_rows_def item_def bind_err_def split_stats_row assms)
qed


text \<open>
  C1. The claim: for a table with only the values 0, 1 and null, with \<open>z\<close> zero cells
  and \<open>o\<close> one cells, \<open>z + o > 0\<close>, the result is \<open>100 * o / (o + z)\<close>, also when
  one of the two rows is absent. The code reads rows 0 and 1 of the table without
  looking at its length: for a region filled with one cells and no null cell the table
  is the single row \<open>1 10\<close>, and the call raises IndexError instead of returning 100.
\<close>

theorem C1_single_row_table_raises:
  "proportion_habitat (E\<lparr>r_stats_c := \<lambda>rast reg m. text_lines [''1 10'']\<rparr>) flt input_rast w
     = (Inl IndexError, w)"
  by (simp add: proportion_habitat_def habitat_defs)

text \<open>
  C5. The claim: when both counts are 0 (empty or fully null region), the function fails
  with a division error and returns no number. For a fully null region the table is the
  single row \<open>* 25\<close>: the code raises IndexError at the read of row 1, before the
  guarded division is reached, and no message is printed.
\<close>

theorem C5_null_table_raises:
  "proportion_habitat (E\<lparr>r_stats_c := \<lambda>rast reg m. text_lines [''* 25'']\<rparr>) flt input_rast w
     = (Inl IndexError, w)"
  by (simp add: proportion_habitat_def habitat_defs)

section \<open>\<open>create_new_column\<close>\<close>

text \<open>
  C6. If a name of the batch is longer than 10 characters, \<open>create_new_column\<close> raises
  ValueError and the session is the one it was called with: no command has reached the
  attribute table, whatever the other names are.
\<close>

theorem C6_long_name_rejected_before_mutation:
  "\<exists>n \<in> set names. 10 < length n \<Longrightarrow>
   create_new_column self names type_col w
     = (Inl ValueError, self\<lparr>column_names := Some names\<rparr>, w)"
  by (simp add: create_new_column_def list_ex_iff)

theorem C6_witness:
  "(\<exists>n \<in> set [''p_hab'', ''proportion_euca'']. 10 < length n) \<and>
   create_new_column (new_job ''parcels'' [''cover'', ''patches''])
       [''p_hab'', ''proportion_euca''] [''float'', ''float''] example_session
     = (Inl ValueError,
        (new_job ''parcels'' [''cover'', ''patches''])
          \<lparr>column_names := Some [''p_hab'', ''proportion_euca'']\<rparr>,
        example_session)"
  using C6_long_name_rejected_before_mutation
    [of "[''p_hab'', ''proportion_euca'']" "new_job ''parcels'' [''cover'', ''patches'']"
        "[''float'', ''float'']" example_session]
  by simp

text \<open>
  C7, as claimed: with lists of unequal lengths the call fails with a configuration
  error and changes nothing, the recorded column names included. Two inputs refute it.
  On a fresh object for two rasters, one name and one type: the call records the new
  names. With a name of 15 characters among lists of unequal lengths: the call raises
  ValueError, the error of the length-of-name check, which comes first.
\<close>

theorem C7_counterexample:
  "(case create_new_column (new_job ''parcels'' [''cover'', ''patches'']) [''p3''] [''float'']
           example_session of
      (r, self', w') \<Rightarrow>
        column_names self' \<noteq> column_names (new_job ''parcels'' [''cover'', ''patches'']))
   \<and> fst (create_new_column (new_job ''parcels'' [''cover'', ''patches''])
             [''proportion_euca''] [''float''] example_session) = Inl ValueError"
  by (simp add: column_defs engine_defs example_defs)

text \<open>
  C7, amended: if no name is longer than 10 characters and the three lengths are not all
  equal, the call prints the error about the lengths through \<open>grass.error\<close> and
  returns; the session is otherwise the same (no column is created, no table or raster
  changes), and the flags, the vector and the rasters of the object are unchanged.
\<close>

theorem C7_length_mismatch_reported:
  "\<forall>n \<in> set names. length n \<le> 10 \<Longrightarrow>
   \<not> (length names = length (input_rasters self)
       \<and> length type_col = length (input_rasters self)) \<Longrightarrow>
   (case create_new_column self names type_col w of
      (r, self', w') \<Rightarrow>
        r = Inr () \<and> w' = grass_error msg_lengths w
        \<and> tables w' = tables w \<and> rasters w' = rasters w
        \<and> load_ok self' = load_ok self \<and> set_cols self' = set_cols self
        \<and> input_shape self' = input_shape self \<and> input_rasters self' = input_rasters self)"
  by (auto simp add: create_new_column_def list_ex_iff grass_error_def Let_def)

theorem C7_witness:
  "length ''p3'' \<le> 10
   \<and> \<not> (length [''p3''] = length (input_rasters (new_job ''parcels'' [''cover'', ''patches'']))
         \<and> length [''float''] = length (input_rasters (new_job ''parcels'' [''cover'', ''patches''])))
   \<and> (case create_new_column (new_job ''parcels'' [''cover'', ''patches'']) [''p3''] [''float'']
              example_session of
         (r, self', w') \<Rightarrow>
           r = Inr () \<and> w' = grass_error msg_lengths example_session
           \<and> tables w' = tables example_session \<and> \<not> set_cols self')"
  using C7_length_mismatch_reported
    [of "[''p3'']" "new_job ''parcels'' [''cover'', ''patches'']" "[''float'']" example_session]
  by (simp add: new_job_def split: prod.splits)

text \<open>
  C10. The claim: whenever \<open>set_cols\<close> is true the column names are as many as the
  rasters, so the loop of \<open>run_zonal_stats\<close> never reads the names out of range.
  \<open>create_new_column\<close> records the names before it checks them and never resets
  \<open>set_cols\<close>: after a call that succeeds for two rasters, a second call with one
  name fails the length check, leaves \<open>set_cols\<close> true and one name recorded, and
  \<open>run_zonal_stats\<close> raises IndexError at the second raster.
\<close>

theorem C10_ready_with_too_few_names:
  "(case create_new_column (new_job ''mun_teste_wgs84'' [''cover'', ''patches''])
           [''p1'', ''p2''] [''float'', ''float''] example_session of
      (r1, self1, w1) \<Rightarrow>
        (case create_new_column self1 [''p3''] [''float''] w1 of
           (r2, self2, w2) \<Rightarrow>
             r1 = Inr () \<and> r2 = Inr () \<and> set_cols self2
             \<and> column_names self2 = Some [''p3'']
             \<and> input_rasters self2 = [''cover'', ''patches'']
             \<and> fst (run_zonal_stats example_engine self2 (number_patches example_engine False) w2)
                 = Inl IndexError))"
  by (simp add: column_defs engine_defs driver_defs example_defs number_patches_def
        non_empty_def upt_rec)

section \<open>\<open>run_zonal_stats\<close>\<close>

text \<open>
  C8. Called while a readiness flag is false, \<open>run_zonal_stats\<close> raises an exception
  whose message names the unmet precondition (the maps first, when both are unmet), and
  the session is unchanged: no feature is processed and no table is updated. The same
  holds for both entry points of the script version.
\<close>

theorem C8_not_ready:
  "\<not> (set_cols self \<and> load_ok self) \<Longrightarrow>
   run_zonal_stats E self function w =
     (Inl (Exception (if \<not> load_ok self then ''Maps were not loaded successfully. Retry.''
                      else ''Columns were not set successfully. Retry.'')), w)
   \<and> run_zonal_stats_v001 E self function select_cats w =
     (Inl (Exception (if \<not> load_ok self then ''Maps were not loaded successfully. Please retry.''
                      else ''Columns were not set successfully. Please retry.'')), w)
   \<and> run_zonal_stats_v2 E self function select_cats w =
     (Inl (Exception (if \<not> load_ok self then ''Maps were not loaded successfully. Please retry.''
                      else ''Columns were not set successfully. Please retry.'')), w)"
  by (auto simp add: run_zonal_stats_def run_zonal_stats_v001_def run_zonal_stats_v2_def
        not_ready_def)

theorem C8_witness:
  "\<not> (set_cols (new_job ''parcels'' [''cover'']) \<and> load_ok (new_job ''parcels'' [''cover'']))
   \<and> run_zonal_stats example_engine (new_job ''parcels'' [''cover''])
        (number_patches example_engine False) example_session
      = (Inl (Exception ''Columns were not set successfully. Retry.''), example_session)"
  using C8_not_ready
    [of "new_job ''parcels'' [''cover'']" example_engine "number_patches example_engine False"
        example_session]
  by (simp add: new_job_def)

section \<open>The rows written by a run\<close>







lemma v_db_update_frame:
  "rasters (v_db_update v col val cat w) = rasters w"
  "region (v_db_update v col val cat w) = region w"
  "mask (v_db_update v col val cat w) = mask w"
  "errors (v_db_update v col val cat w) = errors w"
  by (simp_all add: v_db_update_def split: option.splits)






lemma habitat_fixture:
  "create_new_column (new_job ''mun_teste_wgs84'' [''cover'']) [''p_hab''] [''float''] example_session
     = (Inr (), habitat_job, habitat_session [''1'', ''2'', ''3''])"
  by (simp add: column_defs engine_defs example_defs habitat_job_def habitat_session_def
        habitat_table_def)










section \<open>Temporary rasters\<close>

lemma dom_delete: "fst ` set (AList.delete k al) = fst ` set al - {k}"
proof -
  have "set (map fst (AList.delete k al)) = set (map fst al) - {k}"
    by (simp add: delete_keys)
  then show ?thesis by simp
qed

lemma raster_names_simps:
  "raster_names (g_remove x w) = raster_names w - {x}"
  "raster_names (v_to_rast v out cat w) = insert out (raster_names w)"
  "raster_names (g_region r w) = raster_names w"
  "raster_names (g_region_zoom x w) = raster_names w"
  "raster_names (r_mask v cat w) = raster_names w"
  "raster_names (r_mask_remove w) = raster_names w"
  "raster_names (v_db_update v col val cat w) = raster_names w"
  by (simp_all add: raster_names_def g_remove_def v_to_rast_def g_region_def g_region_zoom_def
        r_mask_def r_mask_remove_def v_db_update_frame dom_delete dom_update
        split: option.splits)

lemma mapcalc_names:
  assumes "mapcalc out expression ov w = (Inr u, w')"
  shows "raster_names w' = insert out (raster_names w)"
proof -
  have "w' = w\<lparr>rasters :=
      AList.update out (Raster_expr expression (region w) (mask w) (rasters w)) (rasters w)\<rparr>"
    using assms by (simp add: mapcalc_def split: if_splits)
  then show ?thesis
    by (simp add: raster_names_def dom_update)
qed

lemma for_each_post:
  assumes "for_each body xs w = (Inr u, w')"
    and "\<And>x a a' v. x \<in> set xs \<Longrightarrow> body x a = (Inr v, a') \<Longrightarrow> P a \<Longrightarrow> P a' \<and> Q a'"
    and "P w"
  shows "P w' \<and> (xs \<noteq> [] \<longrightarrow> Q w')"
  using assms
proof (induction xs arbitrary: w)
  case Nil
  then show ?case by simp
next
  case (Cons x xs)
  obtain r1 w1 where b: "body x w = (r1, w1)" by (cases "body x w")
  with Cons.prems(1) obtain v where r1: "r1 = Inr v" and rest: "for_each body xs w1 = (Inr u, w')"
    by (cases r1) auto
  have pq: "P w1 \<and> Q w1"
    using Cons.prems(2)[of x w v w1] b r1 Cons.prems(3) by simp
  have ih: "P w' \<and> (xs \<noteq> [] \<longrightarrow> Q w')"
    by (rule Cons.IH[OF rest _ conjunct1[OF pq]]) (rule Cons.prems(2), auto)
  show ?case
  proof (cases xs)
    case Nil
    with rest have "w' = w1" by simp
    with pq show ?thesis by simp
  next
    case (Cons y ys)
    with ih show ?thesis by simp
  qed
qed

lemma adds_no_rasterD:
  "adds_no_raster f \<Longrightarrow> f r x = (Inr v, x') \<Longrightarrow> raster_names x' \<subseteq> raster_names x"
  unfolding adds_no_raster_def by blast

lemma raster_step_names:
  assumes "adds_no_raster function" "raster_step function self cat i w = (Inr u, w')"
  shows "raster_names w' \<subseteq> raster_names w"
  using assms(2) adds_no_rasterD[OF assms(1)]
  by (fastforce simp: raster_step_def raster_names_simps split: sum.splits prod.splits)

lemma masked_rounds_names:
  assumes f: "adds_no_raster function" and r: "masked_rounds function self cat w = (Inr u, w')"
  shows "raster_names w' \<subseteq> raster_names w - {''temp_rast''}"
proof -
  obtain r1 w1 where l: "for_each (raster_step function self cat) [0..<length (input_rasters self)]
             (r_mask (input_shape self) cat w) = (r1, w1)"
    by (cases "for_each (raster_step function self cat) [0..<length (input_rasters self)]
             (r_mask (input_shape self) cat w)")
  with r obtain v where r1: "r1 = Inr v" and w': "w' = g_remove ''temp_rast'' (r_mask_remove w1)"
    by (cases r1) (auto simp: masked_rounds_def)
  have "raster_names w1 \<subseteq> raster_names w \<and>
      ([0..<length (input_rasters self)] \<noteq> [] \<longrightarrow> True)"
  proof (rule for_each_post[OF l[unfolded r1], where P = "\<lambda>a. raster_names a \<subseteq> raster_names w"])
    fix x a a' v'
    assume "raster_step function self cat x a = (Inr v', a')" "raster_names a \<subseteq> raster_names w"
    then show "raster_names a' \<subseteq> raster_names w \<and> True"
      using raster_step_names[OF f, of self cat x a v' a'] by blast
  qed (simp add: raster_names_simps)
  then show ?thesis
    by (auto simp: w' raster_names_simps)
qed

lemma feature_round_names:
  assumes f: "adds_no_raster function" and r: "feature_round E function self cat w = (Inr u, w')"
  shows "raster_names w' \<subseteq> raster_names w \<and> ''temp_rast'' \<notin> raster_names w'"
proof -
  obtain w1 where "feature_window_main E self cat w = (Inr (), w1)"
    "masked_rounds function self cat w1 = (Inr u, w')"
    using r by (auto simp: feature_round_def split: sum.splits prod.splits)
  moreover from this(1) have "raster_names w1 = insert ''temp_rast'' (raster_names w)"
    by (auto simp: feature_window_main_def raster_names_simps Let_def
          split: sum.splits option.splits)
  ultimately show ?thesis
    using masked_rounds_names[OF f, of self cat w1 u w'] by auto
qed

lemma feature_window_names:
  "feature_window E self cat w = (Inr u, w1) \<Longrightarrow>
   raster_names w1 = insert ''temp_rast'' (raster_names w)"
  by (auto simp: feature_window_def raster_names_simps split: sum.splits prod.splits)

lemma feature_round_v001_names:
  assumes f: "adds_no_raster function" and r: "feature_round_v001 E function self cat w = (Inr u, w')"
  shows "raster_names w' \<subseteq> raster_names w \<and> ''temp_rast'' \<notin> raster_names w'"
proof -
  obtain w1 where "feature_window E self cat w = (Inr (), w1)"
    "masked_rounds function self cat w1 = (Inr u, w')"
    using r by (auto simp: feature_round_v001_def split: sum.splits prod.splits)
  then show ?thesis
    using masked_rounds_names[OF f, of self cat w1 u w'] feature_window_names[of E self cat w "()" w1]
    by auto
qed


lemma raster_step_v2_names:
  assumes f: "adds_no_raster function" and r: "raster_step_v2 function self cat i w = (Inr u, w')"
  shows "raster_names w' \<subseteq> raster_names w \<and> ''temp_rast_input'' \<notin> raster_names w'"
proof -
  obtain col rast w1 val w2 where
    m: "mapcalc ''temp_rast_input'' (''if(temp_rast == 1, '' @ rast @ '', null())'') True w = (Inr (), w1)"
    and c: "function ''temp_rast_input'' w1 = (Inr val, w2)"
    and w': "w' = g_remove ''temp_rast_input'' (v_db_update (input_shape self) col val cat w2)"
    using r by (auto simp: raster_step_v2_def split: sum.splits prod.splits)
  have "raster_names w2 \<subseteq> insert ''temp_rast_input'' (raster_names w)"
    using adds_no_rasterD[OF f c] mapcalc_names[OF m] by simp
  then show ?thesis
    by (auto simp: w' raster_names_simps)
qed

lemma feature_round_v2_names:
  assumes f: "adds_no_raster function" and r: "feature_round_v2 E function self cat w = (Inr u, w')"
  shows "raster_names w' \<subseteq> raster_names w \<and> ''temp_rast'' \<notin> raster_names w'
         \<and> ''temp_rast_input'' \<notin> raster_names w'"
proof -
  obtain w1 w2 where win: "feature_window E self cat w = (Inr (), w1)"
    and l: "for_each (raster_step_v2 function self cat) [0..<length (input_rasters self)] w1 = (Inr (), w2)"
    and w': "w' = g_remove ''temp_rast'' w2"
    using r by (auto simp: feature_round_v2_def split: sum.splits prod.splits)
  have ne: "[0..<length (input_rasters self)] \<noteq> []"
    using win by (auto simp: feature_window_def item_def split: sum.splits prod.splits if_splits)
  have "raster_names w2 \<subseteq> raster_names w1 \<and>
      ([0..<length (input_rasters self)] \<noteq> [] \<longrightarrow> ''temp_rast_input'' \<notin> raster_names w2)"
  proof (rule for_each_post[OF l, where P = "\<lambda>a. raster_names a \<subseteq> raster_names w1"])
    fix x a a' v'
    assume "raster_step_v2 function self cat x a = (Inr v', a')" "raster_names a \<subseteq> raster_names w1"
    then show "raster_names a' \<subseteq> raster_names w1 \<and> ''temp_rast_input'' \<notin> raster_names a'"
      using raster_step_v2_names[OF f, of self cat x a v' a'] by blast
  qed simp
  then show ?thesis
    using ne feature_window_names[OF win] by (auto simp: w' raster_names_simps)
qed

lemma number_patches_mask_names:
  assumes "number_patches E True r w = (Inr v, w')"
  shows "raster_names w' = raster_names w \<and> ''pid_mask'' \<notin> raster_names w'"
proof -
  obtain w1 where m: "mapcalc ''pid_mask'' r False w = (Inr (), w1)"
    and w': "w' = g_remove ''pid_mask'' w1"
    using assms by (auto simp: number_patches_def Let_def split: sum.splits prod.splits)
  have "''pid_mask'' \<notin> raster_names w"
    using m by (auto simp: mapcalc_def split: if_splits)
  then show ?thesis
    using mapcalc_names[OF m] by (auto simp: w' raster_names_simps)
qed

lemma number_patches_adds_no_raster: "adds_no_raster (number_patches E msk)"
proof (cases msk)
  case True
  then show ?thesis
    using number_patches_mask_names[of E] by (auto simp: adds_no_raster_def)
next
  case False
  then show ?thesis
    by (auto simp: adds_no_raster_def number_patches_def Let_def)
qed

lemma proportion_habitat_adds_no_raster: "adds_no_raster (proportion_habitat E flt)"
  by (auto simp: adds_no_raster_def proportion_habitat_def raster_names_def split: prod.splits)

lemma loop_names:
  assumes l: "for_each body cats w = (Inr u, w')"
    and step: "\<And>c a a' v. body c a = (Inr v, a') \<Longrightarrow> raster_names a' \<subseteq> raster_names a \<and> Q a'"
  shows "raster_names w' \<subseteq> raster_names w \<and> (cats \<noteq> [] \<longrightarrow> Q w')"
proof (rule for_each_post[OF l, where P = "\<lambda>a. raster_names a \<subseteq> raster_names w"])
  fix x a a' v
  assume "body x a = (Inr v, a')" "raster_names a \<subseteq> raster_names w"
  then show "raster_names a' \<subseteq> raster_names w \<and> Q a'"
    using step[of x a v a'] by blast
qed simp

text \<open>
  C4, as claimed: no temporary raster of a run remains, also when the run exits by a
  raised error. The source has no \<open>try\<close>/\<open>finally\<close>: when the metric function
  raises, the loop is left at once. With the features 1 and 4, feature 4 all null,
  \<open>proportion_habitat\<close> raises IndexError in the round of feature 4 and the raster
  \<open>temp_rast\<close> of that round stays in the catalogue.
\<close>

theorem C4_counterexample:
  "''temp_rast'' \<notin> raster_names (habitat_session [''1'', ''4''])
   \<and> (case run_zonal_stats example_engine habitat_job
              (proportion_habitat example_engine decimal_float) (habitat_session [''1'', ''4'']) of
        (r, w') \<Rightarrow> r = Inl IndexError \<and> ''temp_rast'' \<in> raster_names w')"
  by (simp add: habitat_job_def habitat_session_def habitat_table_def column_defs engine_defs
        driver_defs example_defs proportion_habitat_def habitat_defs decimal_float_def
        is_digit_def upt_rec)

text \<open>
  C4, amended: when a run of the driver (any of the three entry points) or a call of
  \<open>number_patches\<close> with the mask option returns normally, every raster of the
  catalogue was there before the call; after a run that processed a feature there is no
  \<open>temp_rast\<close> (and no \<open>temp_rast_input\<close> for \<open>run_zonal_stats_v2\<close>), and
  after \<open>number_patches\<close> there is no \<open>pid_mask\<close>. The metric function of a run
  is one that adds no raster.
\<close>

theorem C4_no_temporary_raster_after_return:
  assumes "adds_no_raster function"
  shows "(run_zonal_stats E self function w = (Inr u, w') \<longrightarrow>
            raster_names w' \<subseteq> raster_names w
            \<and> (table_cats ''mun_teste_wgs84'' w \<noteq> [] \<longrightarrow> ''temp_rast'' \<notin> raster_names w'))
       \<and> (run_zonal_stats_v001 E self function select_cats w = (Inr u, w') \<longrightarrow>
            raster_names w' \<subseteq> raster_names w
            \<and> (selected_cats self select_cats w \<noteq> [] \<longrightarrow> ''temp_rast'' \<notin> raster_names w'))
       \<and> (run_zonal_stats_v2 E self function select_cats w = (Inr u, w') \<longrightarrow>
            raster_names w' \<subseteq> raster_names w
            \<and> (selected_cats self select_cats w \<noteq> [] \<longrightarrow>
                 ''temp_rast'' \<notin> raster_names w' \<and> ''temp_rast_input'' \<notin> raster_names w'))
       \<and> (number_patches E True input_raster_pid w = (Inr v, w') \<longrightarrow>
            raster_names w' = raster_names w \<and> ''pid_mask'' \<notin> raster_names w')"
proof (intro conjI impI)
  assume r: "run_zonal_stats E self function w = (Inr u, w')"
  then have l: "for_each (feature_round E function self) (table_cats ''mun_teste_wgs84'' w) w = (Inr u, w')"
    by (auto simp: run_zonal_stats_def not_ready_def split: if_splits)
  have a: "raster_names w' \<subseteq> raster_names w
      \<and> (table_cats ''mun_teste_wgs84'' w \<noteq> [] \<longrightarrow> ''temp_rast'' \<notin> raster_names w')"
    by (rule loop_names[OF l]) (erule feature_round_names[OF assms])
  from a show "raster_names w' \<subseteq> raster_names w" by blast
  assume "table_cats ''mun_teste_wgs84'' w \<noteq> []"
  with a show "''temp_rast'' \<notin> raster_names w'" by blast
next
  assume r: "run_zonal_stats_v001 E self function select_cats w = (Inr u, w')"
  then have l: "for_each (feature_round_v001 E function self) (selected_cats self select_cats w) w = (Inr u, w')"
    by (auto simp: run_zonal_stats_v001_def not_ready_def split: if_splits)
  have a: "raster_names w' \<subseteq> raster_names w
      \<and> (selected_cats self select_cats w \<noteq> [] \<longrightarrow> ''temp_rast'' \<notin> raster_names w')"
    by (rule loop_names[OF l]) (erule feature_round_v001_names[OF assms])
  from a show "raster_names w' \<subseteq> raster_names w" by blast
  assume "selected_cats self select_cats w \<noteq> []"
  with a show "''temp_rast'' \<notin> raster_names w'" by blast
next
  assume r: "run_zonal_stats_v2 E self function select_cats w = (Inr u, w')"
  then have l: "for_each (feature_round_v2 E function self) (selected_cats self select_cats w) w = (Inr u, w')"
    by (auto simp: run_zonal_stats_v2_def not_ready_def split: if_splits)
  have a: "raster_names w' \<subseteq> raster_names w
      \<and> (selected_cats self select_cats w \<noteq> [] \<longrightarrow>
           ''temp_rast'' \<notin> raster_names w' \<and> ''temp_rast_input'' \<notin> raster_names w')"
    by (rule loop_names[OF l]) (erule feature_round_v2_names[OF assms])
  from a show "raster_names w' \<subseteq> raster_names w" by blast
  assume "selected_cats self select_cats w \<noteq> []"
  with a show "''temp_rast'' \<notin> raster_names w'" "''temp_rast_input'' \<notin> raster_names w'" by blast+
next
  assume "number_patches E True input_raster_pid w = (Inr v, w')"
  then show "raster_names w' = raster_names w" "''pid_mask'' \<notin> raster_names w'"
    using number_patches_mask_names by blast+
qed


theorem C4_witness:
  "\<exists>w'. run_zonal_stats example_engine habitat_job (number_patches example_engine True)
            (habitat_session [''1'', ''2'', ''3'']) = (Inr (), w')
        \<and> raster_names w' \<subseteq> raster_names (habitat_session [''1'', ''2'', ''3''])
        \<and> ''temp_rast'' \<notin> raster_names w'"
proof -
  let ?run = "run_zonal_stats example_engine habitat_job (number_patches example_engine True)
            (habitat_session [''1'', ''2'', ''3''])"
  have "fst ?run = Inr ()"
    by (simp add: habitat_job_def habitat_session_def habitat_table_def column_defs engine_defs
        driver_defs example_defs number_patches_def non_empty_def upt_rec)
  then have r: "?run = (Inr (), snd ?run)"
    by (simp add: prod_eq_iff)
  have c: "table_cats ''mun_teste_wgs84'' (habitat_session [''1'', ''2'', ''3'']) \<noteq> []"
    by (simp add: habitat_session_def habitat_table_def table_cats_def db_select_cat_def)
  note t = C4_no_temporary_raster_after_return[OF number_patches_adds_no_raster[of example_engine True],
      where E = example_engine and self = habitat_job
        and w = "habitat_session [''1'', ''2'', ''3'']" and u = "()" and w' = "snd ?run",
      THEN conjunct1]
  have "raster_names (snd ?run) \<subseteq> raster_names (habitat_session [''1'', ''2'', ''3''])
      \<and> ''temp_rast'' \<notin> raster_names (snd ?run)"
    using t r c by blast
  then show ?thesis using r by blast
qed


section \<open>The features a run processes\<close>

lemma rows_kept_refl: "rows_kept S rs rs"
  by (simp add: rows_kept_def list_all2_refl)

lemma rows_kept_trans:
  assumes "rows_kept S a b" "rows_kept S b c"
  shows "rows_kept S a c"
  unfolding rows_kept_def
  by (rule list_all2_trans[OF _ assms(1)[unfolded rows_kept_def] assms(2)[unfolded rows_kept_def]])
     auto

lemma tables_kept_refl: "tables_kept S T T"
  by (auto simp: tables_kept_def rows_kept_refl split: option.splits)

lemma tables_kept_trans:
  assumes "tables_kept S T1 T2" "tables_kept S T2 T3"
  shows "tables_kept S T1 T3"
  unfolding tables_kept_def
proof
  fix v
  show "case T1 v of None \<Rightarrow> T3 v = None
        | Some t \<Rightarrow> \<exists>t'. T3 v = Some t' \<and> columns t' = columns t \<and> rows_kept S (rows t) (rows t')"
  proof (cases "T1 v")
    case None
    with assms show ?thesis by (auto simp: tables_kept_def split: option.splits dest!: spec[of _ v])
  next
    case (Some t)
    with assms(1) obtain t2 where t2: "T2 v = Some t2" "columns t2 = columns t" "rows_kept S (rows t) (rows t2)"
      by (auto simp: tables_kept_def split: option.splits dest!: spec[of _ v])
    with assms(2) obtain t3 where "T3 v = Some t3" "columns t3 = columns t2" "rows_kept S (rows t2) (rows t3)"
      by (auto simp: tables_kept_def split: option.splits dest!: spec[of _ v])
    with t2 Some show ?thesis
      by (auto intro: rows_kept_trans)
  qed
qed

lemma v_db_update_kept:
  assumes "cat \<in> S"
  shows "tables_kept S (tables w) (tables (v_db_update v col val cat w))"
proof -
  have "rows_kept S rs (map (update_row col val cat) rs)" for rs
    using assms by (simp add: rows_kept_def list_all2_map2 update_row_def list_all2_refl)
  then show ?thesis
    by (auto simp: tables_kept_def v_db_update_def rows_kept_refl split: option.splits)
qed

lemma for_each_kept:
  assumes "\<And>x a. x \<in> set xs \<Longrightarrow> tables_kept S (tables a) (tables (snd (body x a)))"
  shows "tables_kept S (tables w) (tables (snd (for_each body xs w)))"
  using assms
proof (induction xs arbitrary: w)
  case Nil
  then show ?case by (simp add: tables_kept_refl)
next
  case (Cons x xs)
  obtain r1 w1 where b: "body x w = (r1, w1)" by (cases "body x w")
  have 1: "tables_kept S (tables w) (tables w1)"
    using Cons.prems[of x w] b by simp
  show ?case
  proof (cases r1)
    case (Inl e)
    with b 1 show ?thesis by simp
  next
    case (Inr u)
    have "tables_kept S (tables w1) (tables (snd (for_each body xs w1)))"
      by (rule Cons.IH) (rule Cons.prems, simp)
    with 1 b Inr show ?thesis
      by (auto intro: tables_kept_trans)
  qed
qed

lemma raster_step_kept:
  assumes "keeps_tables function" "cat \<in> S"
  shows "tables_kept S (tables w) (tables (snd (raster_step function self cat i w)))"
proof -
  have f: "tables (snd (function r w)) = tables w" for r
    using assms(1) by (simp add: keeps_tables_def)
  show ?thesis
  proof (cases "column_at self i")
    case (Inl e)
    then show ?thesis by (simp add: raster_step_def tables_kept_refl)
  next
    case col: (Inr col)
    show ?thesis
    proof (cases "item (input_rasters self) i")
      case (Inl e)
      then show ?thesis by (simp add: raster_step_def col tables_kept_refl)
    next
      case rast: (Inr rast)
      obtain r1 w1 where c: "function rast w = (r1, w1)" by (cases "function rast w")
      then have t: "tables w1 = tables w" using f[of rast] by simp
      show ?thesis
      proof (cases r1)
        case (Inl e)
        then show ?thesis by (simp add: raster_step_def col rast c t tables_kept_refl)
      next
        case (Inr val)
        then show ?thesis
          using v_db_update_kept[OF assms(2), of w1 "input_shape self" col val]
          by (simp add: raster_step_def col rast c t)
      qed
    qed
  qed
qed

lemma feature_window_tables: "tables (snd (feature_window E self cat w)) = tables w"
  by (simp add: feature_window_def g_region_zoom_def v_to_rast_def g_region_def
        split: sum.splits prod.splits option.splits)

lemma masked_rounds_kept:
  assumes "keeps_tables function" "cat \<in> S"
  shows "tables_kept S (tables w) (tables (snd (masked_rounds function self cat w)))"
proof -
  let ?l = "for_each (raster_step function self cat) [0..<length (input_rasters self)]
             (r_mask (input_shape self) cat w)"
  have "tables_kept S (tables (r_mask (input_shape self) cat w)) (tables (snd ?l))"
    by (rule for_each_kept) (rule raster_step_kept[OF assms])
  moreover have "tables (snd (masked_rounds function self cat w)) = tables (snd ?l)"
    by (simp add: masked_rounds_def g_remove_def r_mask_remove_def split: sum.splits prod.splits)
  ultimately show ?thesis by (simp add: r_mask_def)
qed

lemma feature_round_v001_kept:
  assumes "keeps_tables function" "cat \<in> S"
  shows "tables_kept S (tables w) (tables (snd (feature_round_v001 E function self cat w)))"
proof -
  obtain r1 w1 where win: "feature_window E self cat w = (r1, w1)"
    by (cases "feature_window E self cat w")
  then have t: "tables w1 = tables w"
    using feature_window_tables[of E self cat w] by simp
  show ?thesis
  proof (cases r1)
    case (Inl e)
    then show ?thesis by (simp add: feature_round_v001_def win t tables_kept_refl)
  next
    case (Inr u)
    then show ?thesis
      using masked_rounds_kept[OF assms, of w1 self]
      by (simp add: feature_round_v001_def win t)
  qed
qed

lemma proportion_habitat_keeps_tables: "keeps_tables (proportion_habitat E flt)"
  by (simp add: keeps_tables_def proportion_habitat_def split: prod.splits)

text \<open>
  C2, as claimed: with a \<open>select_cats\<close> other than \<open>'all'\<close> the features
  processed are exactly those of \<open>select_cats\<close> that exist. The selection is applied
  only when \<open>select_cats\<close> is no longer than the list of identifiers of the table.
  With four requested identifiers and three features, every feature is processed:
  feature 2, which was not requested, is written.
\<close>

theorem C2_counterexample:
  "''2'' \<notin> set [''1'', ''5'', ''8'', ''9'']
   \<and> (case run_zonal_stats_v001 example_engine habitat_job
              (proportion_habitat example_engine decimal_float)
              (Sel_list [''1'', ''5'', ''8'', ''9'']) (habitat_session [''1'', ''2'', ''3'']) of
        (r, w') \<Rightarrow>
          r = Inr () \<and>
          map_option rows (tables w' ''mun_teste_wgs84'') =
            Some [(''1'', [''p_hab'' \<mapsto> PyFloat 25]), (''2'', [''p_hab'' \<mapsto> PyFloat 100]),
                  (''3'', [''p_hab'' \<mapsto> PyFloat 0])])"
  by (simp add: habitat_job_def habitat_session_def habitat_table_def column_defs engine_defs
        driver_defs example_defs proportion_habitat_def habitat_defs decimal_float_def
        is_digit_def upt_rec)

text \<open>
  C2, amended: for a list \<open>select_cats\<close> no longer than the list of identifiers of
  the vector's table, the features processed are the identifiers of the table that occur
  in \<open>select_cats\<close>, in the order of the table: requested identifiers that do not
  exist are dropped, and the set processed is the intersection. For a longer list the
  selection is skipped and every feature of the table is processed. The run is the loop
  over the features selected, and (for a metric function that keeps the tables) every
  row of a feature not selected is unchanged, however the run ends.
\<close>

theorem C2_selected_features:
  assumes "set_cols self" "load_ok self" "keeps_tables function"
  shows "(length l \<le> length (table_cats (input_shape self) w) \<longrightarrow>
            selected_cats self (Sel_list l) w
              = filter (\<lambda>c. c \<in> set l) (table_cats (input_shape self) w)
            \<and> set (selected_cats self (Sel_list l) w)
              = set l \<inter> set (table_cats (input_shape self) w))
       \<and> (length (table_cats (input_shape self) w) < length l \<longrightarrow>
            selected_cats self (Sel_list l) w = table_cats (input_shape self) w)
       \<and> run_zonal_stats_v001 E self function (Sel_list l) w
            = for_each (feature_round_v001 E function self) (selected_cats self (Sel_list l) w) w
       \<and> tables_kept (set (selected_cats self (Sel_list l) w)) (tables w)
            (tables (snd (run_zonal_stats_v001 E self function (Sel_list l) w)))"
proof -
  have run: "run_zonal_stats_v001 E self function (Sel_list l) w
            = for_each (feature_round_v001 E function self) (selected_cats self (Sel_list l) w) w"
    using assms(1,2) by (simp add: run_zonal_stats_v001_def)
  have "tables_kept (set (selected_cats self (Sel_list l) w)) (tables w)
      (tables (snd (for_each (feature_round_v001 E function self)
          (selected_cats self (Sel_list l) w) w)))"
    by (rule for_each_kept) (rule feature_round_v001_kept[OF assms(3)])
  with run show ?thesis
    by (auto simp: selected_cats_def sel_len_def sel_in_def Let_def)
qed


theorem C2_witness:
  "selected_cats habitat_job (Sel_list [''2'', ''9'']) (habitat_session [''1'', ''2'', ''3''])
     = [''2'']
   \<and> map_option rows
        (tables (snd (run_zonal_stats_v001 example_engine habitat_job
                        (proportion_habitat example_engine decimal_float)
                        (Sel_list [''2'', ''9'']) (habitat_session [''1'', ''2'', ''3''])))
           ''mun_teste_wgs84'')
     = Some [(''1'', Map.empty), (''2'', [''p_hab'' \<mapsto> PyFloat 100]), (''3'', Map.empty)]"
proof -
  let ?w = "habitat_session [''1'', ''2'', ''3'']"
  let ?f = "proportion_habitat example_engine decimal_float"
  have h1: "set_cols habitat_job" and h2: "load_ok habitat_job"
    by (simp_all add: habitat_job_def new_job_def)
  have cats: "table_cats (input_shape habitat_job) ?w = [''1'', ''2'', ''3'']"
    by (simp add: habitat_job_def new_job_def habitat_session_def habitat_table_def
          table_cats_def db_select_cat_def)
  note t = C2_selected_features[OF h1 h2 proportion_habitat_keeps_tables[of example_engine decimal_float],
      where l = "[''2'', ''9'']" and w = ?w and E = example_engine]
  have sel: "selected_cats habitat_job (Sel_list [''2'', ''9'']) ?w = [''2'']"
    using t cats by simp
  have run: "run_zonal_stats_v001 example_engine habitat_job ?f (Sel_list [''2'', ''9'']) ?w
      = for_each (feature_round_v001 example_engine ?f habitat_job) [''2''] ?w"
    using t sel by simp
  show ?thesis
    unfolding run sel
    by (simp add: habitat_job_def habitat_session_def habitat_table_def column_defs engine_defs
        driver_defs example_defs proportion_habitat_def habitat_defs decimal_float_def
        is_digit_def upt_rec)
qed

text \<open>
  C3. The claim: the identifiers come from the table of the vector layer given at
  construction. \<open>run_zonal_stats\<close> of \<open>GeneralizedZonalStats.py\<close> queries the
  table \<open>mun_teste_wgs84\<close> whatever the layer is: for an object on the layer
  \<open>parcels\<close> (one feature, 7) it goes through the features 1, 2 and 3 of the other
  layer and the row of feature 7 is never written. \<open>run_zonal_stats\<close> of the script
  version queries the table of the layer and writes the row of feature 7.
\<close>

theorem C3_hard_coded_table:
  "(case create_new_column (new_job ''parcels'' [''patches'']) [''np''] [''int'']
           example_session of
      (r1, self, w) \<Rightarrow>
        (case run_zonal_stats example_engine self (number_patches example_engine False) w of
           (r, w') \<Rightarrow>
             r = Inr () \<and> map_option rows (tables w' ''parcels'') = Some [(''7'', Map.empty)])
        \<and> (case run_zonal_stats_v001 example_engine self (number_patches example_engine False)
                   (Sel_str ''all'') w of
           (r, w') \<Rightarrow>
             r = Inr () \<and>
             map_option rows (tables w' ''parcels'') = Some [(''7'', [''np'' \<mapsto> PyInt 2])]))"
  by (simp add: column_defs engine_defs driver_defs example_defs number_patches_def non_empty_def upt_rec)


end
